theory Spec2Isabelle
  imports Main "HOL-Library.Word"
begin

section \<open>The Lottery contract (contracts/Lottery.sol)\<close>

text \<open>
  A shallow embedding of the Solidity contract \<^verbatim>\<open>Lottery\<close>. Storage variables and
  immutables are the fields of a record, together with the ether balance of the
  contract's account (\<^verbatim>\<open>address(this).balance\<close>). Every function takes the
  contract and returns either the error it reverts with or its return value, the
  updated contract and the events it emitted.
\<close>

subsection \<open>Value types\<close>

type_synonym uint256 = "256 word"
type_synonym uint64 = "64 word"
type_synonym uint32 = "32 word"
type_synonym uint16 = "16 word"
type_synonym bytes32 = "256 word"
type_synonym address = "160 word"
type_synonym bytes = "8 word list"

datatype LotteryState = OPEN | CALCULATING

text \<open>The conversion \<^verbatim>\<open>uint256(s_lotteryState)\<close>: an enum member is its position.\<close>

fun uint256_of_LotteryState :: "LotteryState \<Rightarrow> uint256" where
  "uint256_of_LotteryState OPEN = 0"
| "uint256_of_LotteryState CALCULATING = 1"

text \<open>
  The custom errors of the contract, the panics the compiler inserts (Solidity 0.8:
  \<^verbatim>\<open>0x11\<close> arithmetic overflow or underflow, \<^verbatim>\<open>0x12\<close> division or modulo by zero,
  \<^verbatim>\<open>0x32\<close> array index out of bounds), and a revert bubbling up from the VRF
  coordinator.
\<close>

datatype error =
    Lottery__NotEnoughEther
  | Lottery__TransferFailed
  | Lottery__NotOpen
  | Lottery__UpkeepNotNeeded uint256 uint256 uint256
  | Panic nat
  | CoordinatorReverted

datatype event =
    LotteryEnter address
  | RequestLotteryWinner uint256
  | WinnerPicked address

subsection \<open>Contract state and environment\<close>

record contract =
  i_entranceFee :: uint256
  s_players :: "address list"
  i_vrfCoordinator :: address
  i_gasLane :: bytes32
  i_subscriptionId :: uint64
  i_callbackGasLimit :: uint32
  s_recentWinner :: address
  s_lotteryState :: LotteryState
  s_lastTimeStamp :: uint256
  i_interval :: uint256
  balance :: uint256

definition REQUEST_CONFIRMATIONS :: uint16 where
  "REQUEST_CONFIRMATIONS = 3"

definition NUM_WORDS :: uint32 where
  "NUM_WORDS = 1"

text \<open>
  What anyone can do to the lottery from outside: call one of its external functions,
  or force ether into its account without running its code (\<^verbatim>\<open>selfdestruct\<close>).
  The recipient of a payout is such an outsider while the payout call runs.
\<close>

datatype external_call =
    Call_enterLottery address uint256
  | Call_checkUpkeep bytes
  | Call_performUpkeep bytes
  | Force_ether uint256

text \<open>
  What a call reads from outside the contract: the block's timestamp, the answer of
  the VRF coordinator to \<^verbatim>\<open>requestRandomWords\<close> (\<open>None\<close> when the coordinator
  reverts), whether the low-level call \<^verbatim>\<open>to.call{value: v}("")\<close> succeeds, and what
  the code of the recipient does to the lottery while that call runs: the calls it
  makes back into the lottery, in order, each with its sender and value.
\<close>

record env =
  block_timestamp :: uint256
  requestRandomWords :: "bytes32 \<Rightarrow> uint64 \<Rightarrow> uint16 \<Rightarrow> uint32 \<Rightarrow> uint32 \<Rightarrow> uint256 option"
  call_value :: "address \<Rightarrow> uint256 \<Rightarrow> bool"
  call_reenters :: "address \<Rightarrow> uint256 \<Rightarrow> external_call list"

type_synonym 'a result = "error + ('a \<times> contract \<times> event list)"

text \<open>
  The state after the transaction that made the call: a revert discards every write
  of the call, a normal return keeps them.
\<close>

definition state_after :: "contract \<Rightarrow> 'a result \<Rightarrow> contract" where
  "state_after s r = (case r of Inl e \<Rightarrow> s | Inr (x, s', evs) \<Rightarrow> s')"

definition events_of :: "'a result \<Rightarrow> event list" where
  "events_of r = (case r of Inl e \<Rightarrow> [] | Inr (x, s', evs) \<Rightarrow> evs)"

subsection \<open>Constructor\<close>

definition constructor ::
  "env \<Rightarrow> address \<Rightarrow> uint256 \<Rightarrow> bytes32 \<Rightarrow> uint64 \<Rightarrow> uint32 \<Rightarrow> uint256 \<Rightarrow> contract" where
  "constructor e vrfCoordinatorV2 entraceFee gasLane subscriptionId callbackGasLimit interval =
     \<lparr> i_entranceFee = entraceFee,
       s_players = [],
       i_vrfCoordinator = vrfCoordinatorV2,
       i_gasLane = gasLane,
       i_subscriptionId = subscriptionId,
       i_callbackGasLimit = callbackGasLimit,
       s_recentWinner = 0,
       s_lotteryState = OPEN,
       s_lastTimeStamp = block_timestamp e,
       i_interval = interval,
       balance = 0 \<rparr>"

subsection \<open>enterLottery\<close>

text \<open>
  \<^verbatim>\<open>enterLottery\<close> is payable: the value sent with the call is credited to the
  contract's balance before the body runs, and returned with every other effect when
  the body reverts. The fee is checked before the state.
\<close>

definition enterLottery :: "contract \<Rightarrow> address \<Rightarrow> uint256 \<Rightarrow> unit result" where
  "enterLottery s msg_sender msg_value =
     (let s0 = s\<lparr>balance := balance s + msg_value\<rparr> in
      if msg_value < i_entranceFee s0 then Inl Lottery__NotEnoughEther
      else if s_lotteryState s0 \<noteq> OPEN then Inl Lottery__NotOpen
      else
        let s1 = s0\<lparr>s_players := s_players s0 @ [msg_sender]\<rparr>
        in Inr ((), s1, [LotteryEnter msg_sender]))"

subsection \<open>checkUpkeep\<close>

text \<open>
  The function is not declared \<^verbatim>\<open>view\<close>, so it is modelled like the others, with the
  contract it leaves behind. The subtraction is checked: it panics when the block's
  timestamp is before \<^verbatim>\<open>s_lastTimeStamp\<close>. The second return value, \<^verbatim>\<open>performData\<close>,
  is never assigned and stays empty.
\<close>

definition checkUpkeep :: "env \<Rightarrow> contract \<Rightarrow> bytes \<Rightarrow> (bool \<times> bytes) result" where
  "checkUpkeep e s checkData =
     (let isOpen = (OPEN = s_lotteryState s) in
      if block_timestamp e < s_lastTimeStamp s then Inl (Panic 0x11)
      else
        let timePassed = ((block_timestamp e - s_lastTimeStamp s) > i_interval s);
            hasPlayers = (length (s_players s) > 0);
            hasBalance = (balance s > 0);
            upkeepNeeded = (isOpen \<and> timePassed \<and> hasPlayers \<and> hasBalance)
        in Inr ((upkeepNeeded, []), s, []))"

subsection \<open>performUpkeep\<close>

definition performUpkeep :: "env \<Rightarrow> contract \<Rightarrow> bytes \<Rightarrow> unit result" where
  "performUpkeep e s checkData =
     (case checkUpkeep e s [] of
        Inl err \<Rightarrow> Inl err
      | Inr ((upkeepNedeed, performData), s0, evs0) \<Rightarrow>
          if \<not> upkeepNedeed then
            Inl (Lottery__UpkeepNotNeeded
                   (balance s0)
                   (of_nat (length (s_players s0)))
                   (uint256_of_LotteryState (s_lotteryState s0)))
          else
            let s1 = s0\<lparr>s_lotteryState := CALCULATING\<rparr> in
            (case requestRandomWords e
                    (i_gasLane s1)
                    (i_subscriptionId s1)
                    REQUEST_CONFIRMATIONS
                    (i_callbackGasLimit s1)
                    NUM_WORDS of
               None \<Rightarrow> Inl CoordinatorReverted
             | Some requestId \<Rightarrow> Inr ((), s1, evs0 @ [RequestLotteryWinner requestId])))"

subsection \<open>Calls from outside\<close>

text \<open>
  One call from outside, in the block of \<open>e\<close>: the contract it leaves and the
  events it emits. A call that reverts leaves the contract as it was and emits
  nothing; the caller may go on.
\<close>

fun call_step :: "env \<Rightarrow> contract \<Rightarrow> external_call \<Rightarrow> contract \<times> event list" where
  "call_step e s (Call_enterLottery msg_sender msg_value) =
     (state_after s (enterLottery s msg_sender msg_value),
      events_of (enterLottery s msg_sender msg_value))"
| "call_step e s (Call_checkUpkeep checkData) =
     (state_after s (checkUpkeep e s checkData), events_of (checkUpkeep e s checkData))"
| "call_step e s (Call_performUpkeep checkData) =
     (state_after s (performUpkeep e s checkData), events_of (performUpkeep e s checkData))"
| "call_step e s (Force_ether amount) = (s\<lparr>balance := balance s + amount\<rparr>, [])"

fun call_run :: "env \<Rightarrow> contract \<Rightarrow> external_call list \<Rightarrow> contract \<times> event list" where
  "call_run e s [] = (s, [])"
| "call_run e s (c # cs) =
     (case call_step e s c of (s1, evs1) \<Rightarrow>
        (case call_run e s1 cs of (s2, evs2) \<Rightarrow> (s2, evs1 @ evs2)))"

subsection \<open>fulfillRandomWords\<close>

text \<open>
  \<^verbatim>\<open>fulfillRandomWords\<close> is internal: the coordinator reaches it through
  \<^verbatim>\<open>rawFulfillRandomWords\<close> of the base contract \<^verbatim>\<open>VRFConsumerBaseV2\<close>, which is
  not part of this repository and only checks the caller's address.
  The first parameter, the request id, has no name in the source and is never read.
  The length of \<^verbatim>\<open>s_players\<close> is the length of the list: the storage array keeps it
  in one \<^verbatim>\<open>uint256\<close> slot, so the remainder is taken on natural numbers.

  The four storage writes come before the payout, and the payout sends the whole
  balance. The payout is a call that hands control to the winner's code with the
  lottery already \<open>OPEN\<close> and its players cleared, and no function of the contract
  guards against re-entry: what the winner's code does to the lottery during the call
  (\<open>call_reenters\<close>) runs on the contract as the writes and the debit left it. When
  the call fails, everything the recipient did is undone with it, and the function
  reverts.
\<close>

definition fulfillRandomWords :: "env \<Rightarrow> contract \<Rightarrow> uint256 \<Rightarrow> uint256 list \<Rightarrow> unit result" where
  "fulfillRandomWords e s requestId randomWords =
     (case randomWords of
        [] \<Rightarrow> Inl (Panic 0x32)
      | randomWord # _ \<Rightarrow>
          if length (s_players s) = 0 then Inl (Panic 0x12)
          else
            let indexOfWinner = unat randomWord mod length (s_players s) in
            if \<not> indexOfWinner < length (s_players s) then Inl (Panic 0x32)
            else
              let recentWinner = s_players s ! indexOfWinner;
                  s1 = s\<lparr>s_recentWinner := recentWinner\<rparr>;
                  s2 = s1\<lparr>s_lotteryState := OPEN\<rparr>;
                  s3 = s2\<lparr>s_players := []\<rparr>;
                  s4 = s3\<lparr>s_lastTimeStamp := block_timestamp e\<rparr>;
                  amount = balance s4;
                  success = call_value e recentWinner amount;
                  s5 = s4\<lparr>balance := balance s4 - amount\<rparr>
              in
                if \<not> success then Inl Lottery__TransferFailed
                else
                  (case call_run e s5 (call_reenters e recentWinner amount) of
                     (s6, evs) \<Rightarrow> Inr ((), s6, evs @ [WinnerPicked recentWinner])))"

subsection \<open>Getters\<close>

definition getEntranceFee :: "contract \<Rightarrow> uint256" where
  "getEntranceFee s = i_entranceFee s"

definition getPlayer :: "contract \<Rightarrow> uint256 \<Rightarrow> error + address" where
  "getPlayer s index =
     (if unat index < length (s_players s) then Inr (s_players s ! unat index)
      else Inl (Panic 0x32))"

definition getRecentWinner :: "contract \<Rightarrow> address" where
  "getRecentWinner s = s_recentWinner s"

definition getLotteryState :: "contract \<Rightarrow> LotteryState" where
  "getLotteryState s = s_lotteryState s"

definition getNumWords :: uint256 where
  "getNumWords = ucast NUM_WORDS"

definition getNumberOfPlayers :: "contract \<Rightarrow> uint256" where
  "getNumberOfPlayers s = of_nat (length (s_players s))"

definition getTimeStamp :: "contract \<Rightarrow> uint256" where
  "getTimeStamp s = s_lastTimeStamp s"

definition getInterval :: "contract \<Rightarrow> uint256" where
  "getInterval s = i_interval s"

definition getRequestConfirmations :: uint256 where
  "getRequestConfirmations = ucast REQUEST_CONFIRMATIONS"

subsection \<open>Histories\<close>

text \<open>
  A transaction on the deployed lottery is a call from outside or a fulfilment
  delivered by the coordinator. A history is a list of transactions, each in the
  environment of its block; the timestamps of successive blocks never decrease.
\<close>

datatype transaction =
    Outside external_call
  | Fulfil uint256 "uint256 list"

fun transact :: "env \<Rightarrow> contract \<Rightarrow> transaction \<Rightarrow> contract" where
  "transact e s (Outside c) = fst (call_step e s c)"
| "transact e s (Fulfil requestId randomWords) =
     state_after s (fulfillRandomWords e s requestId randomWords)"

fun run :: "contract \<Rightarrow> (env \<times> transaction) list \<Rightarrow> contract" where
  "run s [] = s"
| "run s ((e, tx) # h) = run (transact e s tx) h"

fun clock_monotone :: "uint256 \<Rightarrow> (env \<times> transaction) list \<Rightarrow> bool" where
  "clock_monotone t [] = True"
| "clock_monotone t ((e, tx) # h) =
     (t \<le> block_timestamp e \<and> clock_monotone (block_timestamp e) h)"

fun clock_after :: "uint256 \<Rightarrow> (env \<times> transaction) list \<Rightarrow> uint256" where
  "clock_after t [] = t"
| "clock_after t ((e, tx) # h) = clock_after (block_timestamp e) h"

subsection \<open>Concrete environments and states\<close>

text \<open>
  A coordinator that gives every request the same answer, a recipient whose payout
  always has the same outcome, and a recipient that always makes the same calls back.
\<close>

definition coordinator_answers ::
  "uint256 option \<Rightarrow> bytes32 \<Rightarrow> uint64 \<Rightarrow> uint16 \<Rightarrow> uint32 \<Rightarrow> uint32 \<Rightarrow> uint256 option" where
  "coordinator_answers a keyHash subId confirmations gasLimit numWords = a"

definition transfer_outcome :: "bool \<Rightarrow> address \<Rightarrow> uint256 \<Rightarrow> bool" where
  "transfer_outcome ok recipient amount = ok"

definition recipient_calls :: "external_call list \<Rightarrow> address \<Rightarrow> uint256 \<Rightarrow> external_call list" where
  "recipient_calls cs recipient amount = cs"

text \<open>
  The environment at time \<open>t\<close> in which the coordinator answers with request id 1,
  payouts succeed and the recipient makes the calls \<open>cs\<close> back into the lottery.
\<close>

definition env_reentering :: "uint256 \<Rightarrow> external_call list \<Rightarrow> env" where
  "env_reentering t cs =
     \<lparr> block_timestamp = t,
       requestRandomWords = coordinator_answers (Some 1),
       call_value = transfer_outcome True,
       call_reenters = recipient_calls cs \<rparr>"

text \<open>
  The environment at time \<open>t\<close> in which the coordinator answers with request id 1,
  payouts have the outcome \<open>ok\<close> and the recipient leaves the lottery alone.
\<close>

definition env_at :: "uint256 \<Rightarrow> bool \<Rightarrow> env" where
  "env_at t ok =
     \<lparr> block_timestamp = t,
       requestRandomWords = coordinator_answers (Some 1),
       call_value = transfer_outcome ok,
       call_reenters = recipient_calls [] \<rparr>"

text \<open>
  A lottery with entrance fee 100 and interval 10, deployed at time 0, in the given
  state with the given players and balance.
\<close>

definition lottery_with :: "LotteryState \<Rightarrow> address list \<Rightarrow> uint256 \<Rightarrow> contract" where
  "lottery_with st ps bal =
     (constructor (env_at 0 True) 0xC0 100 0 0 0 10)
       \<lparr> s_lotteryState := st, s_players := ps, balance := bal \<rparr>"

section \<open>Properties\<close>

subsection \<open>Auxiliary facts\<close>

lemmas example_defs =
  lottery_with_def env_at_def env_reentering_def constructor_def coordinator_answers_def
  transfer_outcome_def recipient_calls_def

lemma fulfillRandomWords_cases:
  "fulfillRandomWords e s requestId (r # rs) =
     (if s_players s = [] then Inl (Panic 0x12)
      else if call_value e (s_players s ! (unat r mod length (s_players s))) (balance s)
      then
        (case call_run e
                (s\<lparr>s_recentWinner := s_players s ! (unat r mod length (s_players s)),
                   s_lotteryState := OPEN, s_players := [],
                   s_lastTimeStamp := block_timestamp e, balance := 0\<rparr>)
                (call_reenters e (s_players s ! (unat r mod length (s_players s))) (balance s)) of
           (s6, evs) \<Rightarrow>
             Inr ((), s6, evs @ [WinnerPicked (s_players s ! (unat r mod length (s_players s)))]))
      else Inl Lottery__TransferFailed)"
  by (simp add: fulfillRandomWords_def Let_def)

lemma fulfillRandomWords_paid:
  assumes "s_players s \<noteq> []"
    and "call_value e (s_players s ! (unat r mod length (s_players s))) (balance s)"
    and "call_reenters e (s_players s ! (unat r mod length (s_players s))) (balance s) = []"
  shows "fulfillRandomWords e s requestId (r # rs) =
           Inr ((), s\<lparr>s_recentWinner := s_players s ! (unat r mod length (s_players s)),
                     s_lotteryState := OPEN, s_players := [],
                     s_lastTimeStamp := block_timestamp e, balance := 0\<rparr>,
                [WinnerPicked (s_players s ! (unat r mod length (s_players s)))])"
  using assms by (simp add: fulfillRandomWords_cases)

lemma fulfillRandomWords_unpaid:
  assumes "s_players s \<noteq> []"
    and "\<not> call_value e (s_players s ! (unat r mod length (s_players s))) (balance s)"
  shows "fulfillRandomWords e s requestId (r # rs) = Inl Lottery__TransferFailed"
  using assms by (simp add: fulfillRandomWords_cases)

lemma fulfillRandomWords_no_players:
  assumes "s_players s = []"
  shows "fulfillRandomWords e s requestId (r # rs) = Inl (Panic 0x12)"
  using assms by (simp add: fulfillRandomWords_cases)

lemma checkUpkeep_returns:
  assumes "s_lastTimeStamp s \<le> block_timestamp e"
  shows "checkUpkeep e s cd =
     Inr ((s_lotteryState s = OPEN
           \<and> uint (i_interval s) < uint (block_timestamp e) - uint (s_lastTimeStamp s)
           \<and> s_players s \<noteq> []
           \<and> 0 < balance s, []), s, [])"
proof -
  have "uint (block_timestamp e - s_lastTimeStamp s)
          = uint (block_timestamp e) - uint (s_lastTimeStamp s)"
    using assms by (simp add: uint_minus_simple_alt)
  then show ?thesis
    using assms by (auto simp add: checkUpkeep_def Let_def word_less_def word_le_def not_less)
qed

lemma checkUpkeep_Inr_same:
  assumes "checkUpkeep e s cd = Inr ((b, pd), s', evs)"
  shows "s' = s \<and> evs = [] \<and> pd = []"
  using assms by (auto simp add: checkUpkeep_def Let_def split: if_splits)

subsection \<open>The last timestamp is never ahead of the clock\<close>

lemma enterLottery_lastTimeStamp:
  "s_lastTimeStamp (state_after s (enterLottery s a v)) = s_lastTimeStamp s"
  by (simp add: enterLottery_def state_after_def Let_def)

lemma checkUpkeep_state_after:
  "state_after s (checkUpkeep e s cd) = s"
  by (simp add: checkUpkeep_def state_after_def Let_def)

lemma performUpkeep_lastTimeStamp:
  "s_lastTimeStamp (state_after s (performUpkeep e s cd)) = s_lastTimeStamp s"
  by (simp add: performUpkeep_def checkUpkeep_def state_after_def Let_def split: option.split)

lemma call_step_lastTimeStamp:
  "s_lastTimeStamp (fst (call_step e s c)) = s_lastTimeStamp s"
  by (cases c)
    (simp_all add: enterLottery_lastTimeStamp checkUpkeep_state_after performUpkeep_lastTimeStamp)

lemma call_run_lastTimeStamp:
  "s_lastTimeStamp (fst (call_run e s cs)) = s_lastTimeStamp s"
proof (induction cs arbitrary: s)
  case Nil
  show ?case by simp
next
  case (Cons c cs)
  obtain s1 evs1 where step: "call_step e s c = (s1, evs1)" by (cases "call_step e s c")
  obtain s2 evs2 where rest: "call_run e s1 cs = (s2, evs2)" by (cases "call_run e s1 cs")
  have "s_lastTimeStamp s1 = s_lastTimeStamp s"
    using call_step_lastTimeStamp [of e s c] step by simp
  moreover have "s_lastTimeStamp s2 = s_lastTimeStamp s1"
    using Cons.IH [of s1] rest by simp
  ultimately show ?case using step rest by simp
qed

lemma fulfillRandomWords_lastTimeStamp:
  assumes "s_lastTimeStamp s \<le> block_timestamp e"
  shows "s_lastTimeStamp (state_after s (fulfillRandomWords e s requestId randomWords))
           \<le> block_timestamp e"
proof (cases randomWords)
  case Nil
  then show ?thesis using assms by (simp add: fulfillRandomWords_def state_after_def)
next
  case (Cons r rs)
  show ?thesis
  proof (cases "s_players s \<noteq> []
      \<and> call_value e (s_players s ! (unat r mod length (s_players s))) (balance s)")
    case False
    then show ?thesis
      using assms Cons by (auto simp add: fulfillRandomWords_cases state_after_def)
  next
    case True
    obtain s6 evs where cb: "call_run e
                (s\<lparr>s_recentWinner := s_players s ! (unat r mod length (s_players s)),
                   s_lotteryState := OPEN, s_players := [],
                   s_lastTimeStamp := block_timestamp e, balance := 0\<rparr>)
                (call_reenters e (s_players s ! (unat r mod length (s_players s))) (balance s))
              = (s6, evs)"
      by (cases "call_run e
                (s\<lparr>s_recentWinner := s_players s ! (unat r mod length (s_players s)),
                   s_lotteryState := OPEN, s_players := [],
                   s_lastTimeStamp := block_timestamp e, balance := 0\<rparr>)
                (call_reenters e (s_players s ! (unat r mod length (s_players s))) (balance s))")
    have "s_lastTimeStamp s6 = block_timestamp e"
      using call_run_lastTimeStamp [of e
                "s\<lparr>s_recentWinner := s_players s ! (unat r mod length (s_players s)),
                   s_lotteryState := OPEN, s_players := [],
                   s_lastTimeStamp := block_timestamp e, balance := 0\<rparr>"
                "call_reenters e (s_players s ! (unat r mod length (s_players s))) (balance s)"]
        cb by simp
    then show ?thesis
      using True Cons cb by (simp add: fulfillRandomWords_cases state_after_def)
  qed
qed

lemma transact_lastTimeStamp:
  assumes "s_lastTimeStamp s \<le> block_timestamp e"
  shows "s_lastTimeStamp (transact e s tx) \<le> block_timestamp e"
  using assms
  by (cases tx) (simp_all add: call_step_lastTimeStamp fulfillRandomWords_lastTimeStamp)

lemma run_lastTimeStamp:
  assumes "s_lastTimeStamp s \<le> t" and "clock_monotone t h"
  shows "s_lastTimeStamp (run s h) \<le> clock_after t h"
  using assms
proof (induction h arbitrary: s t)
  case Nil
  then show ?case by simp
next
  case (Cons p h)
  obtain e tx where p: "p = (e, tx)" by (cases p)
  from Cons.prems p have le: "s_lastTimeStamp s \<le> block_timestamp e"
    and mono: "clock_monotone (block_timestamp e) h" by auto
  from transact_lastTimeStamp [OF le]
  have "s_lastTimeStamp (transact e s tx) \<le> block_timestamp e" .
  from Cons.IH [OF this mono] show ?case using p by simp
qed

subsection \<open>Claims\<close>

text \<open>
  C1, as stated, fails when the winner's code enters the lottery again during the
  payout: the fulfilment succeeds, and afterwards the winner is a player of the next
  round and the balance is the fee it paid.
\<close>

theorem fulfillRandomWords_reentered_counterexample:
  "s_players (lottery_with CALCULATING [0xA1, 0xA2, 0xA3, 0xA4] 400) \<noteq> []
   \<and> call_value (env_reentering 25 [Call_enterLottery 0xA3 100]) 0xA3 400
   \<and> fulfillRandomWords (env_reentering 25 [Call_enterLottery 0xA3 100])
        (lottery_with CALCULATING [0xA1, 0xA2, 0xA3, 0xA4] 400) 1 [42]
       = Inr ((), (lottery_with OPEN [0xA3] 100)\<lparr>s_recentWinner := 0xA3, s_lastTimeStamp := 25\<rparr>,
              [LotteryEnter 0xA3, WinnerPicked 0xA3])
   \<and> s_players ((lottery_with OPEN [0xA3] 100)\<lparr>s_recentWinner := 0xA3, s_lastTimeStamp := 25\<rparr>)
       \<noteq> []
   \<and> balance ((lottery_with OPEN [0xA3] 100)\<lparr>s_recentWinner := 0xA3, s_lastTimeStamp := 25\<rparr>)
       \<noteq> 0"
  by (simp add: example_defs fulfillRandomWords_def enterLottery_def state_after_def
      events_of_def)

text \<open>
  C1, amended. When \<^verbatim>\<open>s_players\<close> is not empty, the payout succeeds and the winner's
  code does nothing to the lottery during the payout (no call back, no ether forced
  in), \<^verbatim>\<open>fulfillRandomWords\<close> picks the player at index
  \<^verbatim>\<open>randomWords[0] % s_players.length\<close> of the current players; afterwards
  \<^verbatim>\<open>s_recentWinner\<close> is that player, \<^verbatim>\<open>s_players\<close> is empty, the state is \<open>OPEN\<close>, the
  balance is zero and \<^verbatim>\<open>s_lastTimeStamp\<close> is the block's timestamp. This holds for
  every request id and every lottery state, so in particular for a pending draw and
  its own request id.
\<close>

theorem fulfillRandomWords_selects_winner:
  assumes "s_players s \<noteq> []"
    and "call_value e (s_players s ! (unat r mod length (s_players s))) (balance s)"
    and "call_reenters e (s_players s ! (unat r mod length (s_players s))) (balance s) = []"
  shows "fulfillRandomWords e s requestId (r # rs) =
           Inr ((), state_after s (fulfillRandomWords e s requestId (r # rs)),
                [WinnerPicked (s_players s ! (unat r mod length (s_players s)))])
       \<and> s_recentWinner (state_after s (fulfillRandomWords e s requestId (r # rs)))
           = s_players s ! (unat r mod length (s_players s))
       \<and> s_players (state_after s (fulfillRandomWords e s requestId (r # rs))) = []
       \<and> s_lotteryState (state_after s (fulfillRandomWords e s requestId (r # rs))) = OPEN
       \<and> balance (state_after s (fulfillRandomWords e s requestId (r # rs))) = 0
       \<and> s_lastTimeStamp (state_after s (fulfillRandomWords e s requestId (r # rs)))
           = block_timestamp e"
  by (simp add: fulfillRandomWords_paid [OF assms] state_after_def)

text \<open>
  Four players and a balance of 400: the random word 42 selects index 2.
\<close>

theorem fulfillRandomWords_selects_winner_witness:
  "s_players (lottery_with CALCULATING [0xA1, 0xA2, 0xA3, 0xA4] 400) \<noteq> []
   \<and> call_value (env_at 25 True) 0xA3 400
   \<and> call_reenters (env_at 25 True) 0xA3 400 = []
   \<and> fulfillRandomWords (env_at 25 True) (lottery_with CALCULATING [0xA1, 0xA2, 0xA3, 0xA4] 400) 1 [42]
       = Inr ((), (lottery_with OPEN [] 0)\<lparr>s_recentWinner := 0xA3, s_lastTimeStamp := 25\<rparr>,
              [WinnerPicked 0xA3])"
  using fulfillRandomWords_selects_winner
    [where s = "lottery_with CALCULATING [0xA1, 0xA2, 0xA3, 0xA4] 400" and e = "env_at 25 True"
       and r = 42 and requestId = 1 and rs = "[]"]
  by (simp add: example_defs state_after_def fulfillRandomWords_def)

text \<open>
  C2. In every state a history of transactions leads to from the deployment, at every
  evaluation time from the last block of that history on, \<^verbatim>\<open>checkUpkeep\<close> returns the
  conjunction of the four conditions: the state is \<open>OPEN\<close>, the time since
  \<^verbatim>\<open>s_lastTimeStamp\<close> is strictly greater than the interval, there is a player, and
  the balance is positive. So it returns true exactly when all four hold, and false
  when one of them fails. The difference of the two times is the one of the integers.
\<close>

theorem checkUpkeep_iff_conjunction:
  assumes "clock_monotone (block_timestamp e0) h"
    and "clock_after (block_timestamp e0) h \<le> block_timestamp e"
    and "s = run (constructor e0 vrfCoordinatorV2 entraceFee gasLane subscriptionId
                    callbackGasLimit interval) h"
  shows "checkUpkeep e s checkData =
           Inr ((s_lotteryState s = OPEN
                 \<and> uint (i_interval s) < uint (block_timestamp e) - uint (s_lastTimeStamp s)
                 \<and> s_players s \<noteq> []
                 \<and> 0 < balance s, []), s, [])"
proof -
  have "s_lastTimeStamp (constructor e0 vrfCoordinatorV2 entraceFee gasLane subscriptionId
                           callbackGasLimit interval) \<le> block_timestamp e0"
    by (simp add: constructor_def)
  from run_lastTimeStamp [OF this assms(1)] assms(3)
  have "s_lastTimeStamp s \<le> clock_after (block_timestamp e0) h" by simp
  with assms(2) have "s_lastTimeStamp s \<le> block_timestamp e" by simp
  then show ?thesis by (rule checkUpkeep_returns)
qed

text \<open>
  Fee 100, interval 10, deployed at time 0. One player enters at time 0, the draw is
  requested at time 11 and fulfilled at time 12, another player enters at time 13.
  The last draw is then at time 12: the upkeep is not yet needed at time 22 and is
  needed at time 23.
\<close>

theorem checkUpkeep_iff_conjunction_witness:
  "clock_monotone (block_timestamp (env_at 0 True))
     [(env_at 0 True, Outside (Call_enterLottery 0xA1 100)),
      (env_at 11 True, Outside (Call_performUpkeep [])),
      (env_at 12 True, Fulfil 1 [7]),
      (env_at 13 True, Outside (Call_enterLottery 0xA2 100))]
   \<and> clock_after (block_timestamp (env_at 0 True))
     [(env_at 0 True, Outside (Call_enterLottery 0xA1 100)),
      (env_at 11 True, Outside (Call_performUpkeep [])),
      (env_at 12 True, Fulfil 1 [7]),
      (env_at 13 True, Outside (Call_enterLottery 0xA2 100))] \<le> block_timestamp (env_at 22 True)
   \<and> run (constructor (env_at 0 True) 0xC0 100 0 0 0 10)
     [(env_at 0 True, Outside (Call_enterLottery 0xA1 100)),
      (env_at 11 True, Outside (Call_performUpkeep [])),
      (env_at 12 True, Fulfil 1 [7]),
      (env_at 13 True, Outside (Call_enterLottery 0xA2 100))]
     = (lottery_with OPEN [0xA2] 100)\<lparr>s_recentWinner := 0xA1, s_lastTimeStamp := 12\<rparr>
   \<and> checkUpkeep (env_at 22 True)
       ((lottery_with OPEN [0xA2] 100)\<lparr>s_recentWinner := 0xA1, s_lastTimeStamp := 12\<rparr>) []
     = Inr ((False, []),
            (lottery_with OPEN [0xA2] 100)\<lparr>s_recentWinner := 0xA1, s_lastTimeStamp := 12\<rparr>, [])
   \<and> checkUpkeep (env_at 23 True)
       ((lottery_with OPEN [0xA2] 100)\<lparr>s_recentWinner := 0xA1, s_lastTimeStamp := 12\<rparr>) []
     = Inr ((True, []),
            (lottery_with OPEN [0xA2] 100)\<lparr>s_recentWinner := 0xA1, s_lastTimeStamp := 12\<rparr>, [])"
proof -
  have r: "run (constructor (env_at 0 True) 0xC0 100 0 0 0 10)
     [(env_at 0 True, Outside (Call_enterLottery 0xA1 100)),
      (env_at 11 True, Outside (Call_performUpkeep [])),
      (env_at 12 True, Fulfil 1 [7]),
      (env_at 13 True, Outside (Call_enterLottery 0xA2 100))]
     = (lottery_with OPEN [0xA2] 100)\<lparr>s_recentWinner := 0xA1, s_lastTimeStamp := 12\<rparr>"
    by (simp add: example_defs enterLottery_def performUpkeep_def checkUpkeep_def
        fulfillRandomWords_def state_after_def REQUEST_CONFIRMATIONS_def NUM_WORDS_def)
  have m: "clock_monotone (block_timestamp (env_at 0 True))
     [(env_at 0 True, Outside (Call_enterLottery 0xA1 100)),
      (env_at 11 True, Outside (Call_performUpkeep [])),
      (env_at 12 True, Fulfil 1 [7]),
      (env_at 13 True, Outside (Call_enterLottery 0xA2 100))]"
    by (simp add: example_defs)
  have c22: "clock_after (block_timestamp (env_at 0 True))
     [(env_at 0 True, Outside (Call_enterLottery 0xA1 100)),
      (env_at 11 True, Outside (Call_performUpkeep [])),
      (env_at 12 True, Fulfil 1 [7]),
      (env_at 13 True, Outside (Call_enterLottery 0xA2 100))] \<le> block_timestamp (env_at 22 True)"
    by (simp add: example_defs)
  have c23: "clock_after (block_timestamp (env_at 0 True))
     [(env_at 0 True, Outside (Call_enterLottery 0xA1 100)),
      (env_at 11 True, Outside (Call_performUpkeep [])),
      (env_at 12 True, Fulfil 1 [7]),
      (env_at 13 True, Outside (Call_enterLottery 0xA2 100))] \<le> block_timestamp (env_at 23 True)"
    by (simp add: example_defs)
  show ?thesis
    using m c22 r
      checkUpkeep_iff_conjunction [OF m c22 r [symmetric], of "[]"]
      checkUpkeep_iff_conjunction [OF m c23 r [symmetric], of "[]"]
    by (simp add: example_defs)
qed

text \<open>
  C3. When the payout fails, \<^verbatim>\<open>fulfillRandomWords\<close> reverts with
  \<^verbatim>\<open>Lottery__TransferFailed\<close> and nothing it wrote survives: the contract after the
  call is the contract before it, so the state (\<open>CALCULATING\<close> during a draw), the
  players, the recent winner and the last timestamp are unchanged, and no event is
  emitted.
\<close>

theorem fulfillRandomWords_payout_failure:
  assumes "s_players s \<noteq> []"
    and "\<not> call_value e (s_players s ! (unat r mod length (s_players s))) (balance s)"
  shows "fulfillRandomWords e s requestId (r # rs) = Inl Lottery__TransferFailed
       \<and> state_after s (fulfillRandomWords e s requestId (r # rs)) = s
       \<and> s_lotteryState (state_after s (fulfillRandomWords e s requestId (r # rs)))
           = s_lotteryState s
       \<and> s_players (state_after s (fulfillRandomWords e s requestId (r # rs))) = s_players s
       \<and> s_recentWinner (state_after s (fulfillRandomWords e s requestId (r # rs)))
           = s_recentWinner s
       \<and> s_lastTimeStamp (state_after s (fulfillRandomWords e s requestId (r # rs)))
           = s_lastTimeStamp s
       \<and> events_of (fulfillRandomWords e s requestId (r # rs)) = []"
  by (simp add: fulfillRandomWords_unpaid [OF assms] state_after_def events_of_def)

text \<open>
  A draw in progress with four players whose payout fails: the state stays
  \<open>CALCULATING\<close> and the four players stay.
\<close>

theorem fulfillRandomWords_payout_failure_witness:
  "s_players (lottery_with CALCULATING [0xA1, 0xA2, 0xA3, 0xA4] 400) \<noteq> []
   \<and> \<not> call_value (env_at 25 False) 0xA3 400
   \<and> fulfillRandomWords (env_at 25 False) (lottery_with CALCULATING [0xA1, 0xA2, 0xA3, 0xA4] 400) 1 [42]
       = Inl Lottery__TransferFailed
   \<and> s_lotteryState (state_after (lottery_with CALCULATING [0xA1, 0xA2, 0xA3, 0xA4] 400)
        (fulfillRandomWords (env_at 25 False)
           (lottery_with CALCULATING [0xA1, 0xA2, 0xA3, 0xA4] 400) 1 [42])) = CALCULATING
   \<and> s_players (state_after (lottery_with CALCULATING [0xA1, 0xA2, 0xA3, 0xA4] 400)
        (fulfillRandomWords (env_at 25 False)
           (lottery_with CALCULATING [0xA1, 0xA2, 0xA3, 0xA4] 400) 1 [42]))
       = [0xA1, 0xA2, 0xA3, 0xA4]"
  using fulfillRandomWords_payout_failure
    [of "lottery_with CALCULATING [0xA1, 0xA2, 0xA3, 0xA4] 400" "env_at 25 False" 42 1 "[]"]
  by (simp add: example_defs state_after_def)

text \<open>
  C4. Whatever the state, \<^verbatim>\<open>enterLottery\<close> with a value below the entrance fee reverts
  with \<^verbatim>\<open>Lottery__NotEnoughEther\<close>, and the contract, its players included, is
  unchanged.
\<close>

theorem enterLottery_below_fee:
  assumes "msg_value < i_entranceFee s"
  shows "enterLottery s msg_sender msg_value = Inl Lottery__NotEnoughEther
       \<and> state_after s (enterLottery s msg_sender msg_value) = s
       \<and> s_players (state_after s (enterLottery s msg_sender msg_value)) = s_players s
       \<and> events_of (enterLottery s msg_sender msg_value) = []"
  using assms by (simp add: enterLottery_def state_after_def events_of_def)

text \<open>
  Entrance fee 100, value 99.
\<close>

theorem enterLottery_below_fee_witness:
  "(99 :: uint256) < i_entranceFee (lottery_with OPEN [0xA1] 100)
   \<and> enterLottery (lottery_with OPEN [0xA1] 100) 0xA2 99 = Inl Lottery__NotEnoughEther
   \<and> state_after (lottery_with OPEN [0xA1] 100) (enterLottery (lottery_with OPEN [0xA1] 100) 0xA2 99)
       = lottery_with OPEN [0xA1] 100"
  using enterLottery_below_fee
      [where s = "lottery_with OPEN [0xA1] 100" and msg_sender = "0xA2" and msg_value = 99]
  by (simp add: example_defs state_after_def)

text \<open>
  C5, as stated for every contribution, fails below the entrance fee: the fee is
  checked before the state, so the error is \<^verbatim>\<open>Lottery__NotEnoughEther\<close>.
\<close>

theorem enterLottery_calculating_counterexample:
  "s_lotteryState (lottery_with CALCULATING [0xA1] 100) = CALCULATING
   \<and> enterLottery (lottery_with CALCULATING [0xA1] 100) 0xA2 99 = Inl Lottery__NotEnoughEther
   \<and> enterLottery (lottery_with CALCULATING [0xA1] 100) 0xA2 99 \<noteq> Inl Lottery__NotOpen"
  by (simp add: example_defs enterLottery_def)

text \<open>
  C5, amended. In state \<open>CALCULATING\<close>, \<^verbatim>\<open>enterLottery\<close> always reverts and leaves the
  contract unchanged: with \<^verbatim>\<open>Lottery__NotOpen\<close> when the value reaches the entrance fee,
  with \<^verbatim>\<open>Lottery__NotEnoughEther\<close> when it does not.
\<close>

theorem enterLottery_calculating:
  assumes "s_lotteryState s = CALCULATING"
  shows "enterLottery s msg_sender msg_value =
           Inl (if msg_value < i_entranceFee s then Lottery__NotEnoughEther else Lottery__NotOpen)
       \<and> state_after s (enterLottery s msg_sender msg_value) = s"
  using assms by (simp add: enterLottery_def state_after_def)

text \<open>
  Entrance fee 100: value 100 gives \<^verbatim>\<open>Lottery__NotOpen\<close>, value 99 gives
  \<^verbatim>\<open>Lottery__NotEnoughEther\<close>.
\<close>

theorem enterLottery_calculating_witness:
  "s_lotteryState (lottery_with CALCULATING [0xA1] 100) = CALCULATING
   \<and> enterLottery (lottery_with CALCULATING [0xA1] 100) 0xA2 100 = Inl Lottery__NotOpen
   \<and> enterLottery (lottery_with CALCULATING [0xA1] 100) 0xA2 99 = Inl Lottery__NotEnoughEther"
  using enterLottery_calculating
      [where s = "lottery_with CALCULATING [0xA1] 100" and msg_sender = "0xA2" and msg_value = 100]
    enterLottery_calculating
      [where s = "lottery_with CALCULATING [0xA1] 100" and msg_sender = "0xA2" and msg_value = 99]
  by (simp add: example_defs)

text \<open>
  C6. \<^verbatim>\<open>performUpkeep\<close> calls \<^verbatim>\<open>checkUpkeep\<close> itself. When that returns false, it
  reverts with \<^verbatim>\<open>Lottery__UpkeepNotNeeded\<close> carrying the balance, the number of players
  and the state as a number, and the contract is unchanged. When that returns true and
  the coordinator answers the request with an id, the state becomes \<open>CALCULATING\<close>,
  nothing else changes, and the event \<^verbatim>\<open>RequestLotteryWinner\<close> carries that id.
\<close>

theorem performUpkeep_reverifies:
  "(checkUpkeep e s [] = Inr ((False, performData), s', evs) \<longrightarrow>
      performUpkeep e s checkData =
        Inl (Lottery__UpkeepNotNeeded
               (balance s)
               (of_nat (length (s_players s)))
               (uint256_of_LotteryState (s_lotteryState s)))
      \<and> state_after s (performUpkeep e s checkData) = s
      \<and> events_of (performUpkeep e s checkData) = [])
   \<and> (checkUpkeep e s [] = Inr ((True, performData), s', evs)
      \<and> requestRandomWords e (i_gasLane s) (i_subscriptionId s) REQUEST_CONFIRMATIONS
           (i_callbackGasLimit s) NUM_WORDS = Some requestId \<longrightarrow>
      performUpkeep e s checkData =
        Inr ((), s\<lparr>s_lotteryState := CALCULATING\<rparr>, [RequestLotteryWinner requestId]))"
proof (intro conjI impI)
  assume c: "checkUpkeep e s [] = Inr ((False, performData), s', evs)"
  from checkUpkeep_Inr_same [OF c] have same: "s' = s" "evs = []" by simp_all
  show u: "performUpkeep e s checkData =
        Inl (Lottery__UpkeepNotNeeded
               (balance s)
               (of_nat (length (s_players s)))
               (uint256_of_LotteryState (s_lotteryState s)))"
    using c same by (simp add: performUpkeep_def)
  show "state_after s (performUpkeep e s checkData) = s"
    by (simp add: u state_after_def)
  show "events_of (performUpkeep e s checkData) = []"
    by (simp add: u events_of_def)
next
  assume a: "checkUpkeep e s [] = Inr ((True, performData), s', evs)
      \<and> requestRandomWords e (i_gasLane s) (i_subscriptionId s) REQUEST_CONFIRMATIONS
           (i_callbackGasLimit s) NUM_WORDS = Some requestId"
  then have c: "checkUpkeep e s [] = Inr ((True, performData), s', evs)" by simp
  from checkUpkeep_Inr_same [OF c] have same: "s' = s" "evs = []" by simp_all
  show "performUpkeep e s checkData =
        Inr ((), s\<lparr>s_lotteryState := CALCULATING\<rparr>, [RequestLotteryWinner requestId])"
    using a same by (simp add: performUpkeep_def Let_def)
qed

text \<open>
  Interval 10, one player, balance 100: at time 10 the upkeep is refused with
  \<^verbatim>\<open>Lottery__UpkeepNotNeeded(100, 1, 0)\<close>, at time 11 the draw is requested.
\<close>

theorem performUpkeep_reverifies_witness:
  "checkUpkeep (env_at 10 True) (lottery_with OPEN [0xA1] 100) []
     = Inr ((False, []), lottery_with OPEN [0xA1] 100, [])
   \<and> performUpkeep (env_at 10 True) (lottery_with OPEN [0xA1] 100) []
     = Inl (Lottery__UpkeepNotNeeded 100 1 0)
   \<and> checkUpkeep (env_at 11 True) (lottery_with OPEN [0xA1] 100) []
     = Inr ((True, []), lottery_with OPEN [0xA1] 100, [])
   \<and> requestRandomWords (env_at 11 True) 0 0 3 0 1 = Some 1
   \<and> performUpkeep (env_at 11 True) (lottery_with OPEN [0xA1] 100) []
     = Inr ((), lottery_with CALCULATING [0xA1] 100, [RequestLotteryWinner 1])"
proof -
  have f: "checkUpkeep (env_at 10 True) (lottery_with OPEN [0xA1] 100) []
     = Inr ((False, []), lottery_with OPEN [0xA1] 100, [])"
    by (simp add: example_defs checkUpkeep_def)
  have t: "checkUpkeep (env_at 11 True) (lottery_with OPEN [0xA1] 100) []
     = Inr ((True, []), lottery_with OPEN [0xA1] 100, [])"
    by (simp add: example_defs checkUpkeep_def)
  have q: "requestRandomWords (env_at 11 True) 0 0 3 0 1 = Some 1"
    by (simp add: example_defs)
  show ?thesis
    using f t q
      performUpkeep_reverifies
        [where e = "env_at 10 True" and s = "lottery_with OPEN [0xA1] 100"
           and performData = "[]" and s' = "lottery_with OPEN [0xA1] 100" and evs = "[]"
           and checkData = "[]" and requestId = 1]
      performUpkeep_reverifies
        [where e = "env_at 11 True" and s = "lottery_with OPEN [0xA1] 100"
           and performData = "[]" and s' = "lottery_with OPEN [0xA1] 100" and evs = "[]"
           and checkData = "[]" and requestId = 1]
    by (simp add: example_defs REQUEST_CONFIRMATIONS_def NUM_WORDS_def)
qed

text \<open>
  C7, as stated, fails: \<^verbatim>\<open>performUpkeep\<close> emits request id 1, and a fulfilment with
  request id 2 still empties the players and reopens the lottery.
\<close>

theorem fulfillRandomWords_other_id_counterexample:
  "performUpkeep (env_at 11 True) (lottery_with OPEN [0xA1] 100) []
     = Inr ((), lottery_with CALCULATING [0xA1] 100, [RequestLotteryWinner 1])
   \<and> (2 :: uint256) \<noteq> 1
   \<and> s_players (lottery_with CALCULATING [0xA1] 100) = [0xA1]
   \<and> s_players (state_after (lottery_with CALCULATING [0xA1] 100)
        (fulfillRandomWords (env_at 12 True) (lottery_with CALCULATING [0xA1] 100) 2 [7])) = []
   \<and> s_lotteryState (lottery_with CALCULATING [0xA1] 100) = CALCULATING
   \<and> s_lotteryState (state_after (lottery_with CALCULATING [0xA1] 100)
        (fulfillRandomWords (env_at 12 True) (lottery_with CALCULATING [0xA1] 100) 2 [7])) = OPEN"
  by (simp add: example_defs performUpkeep_def checkUpkeep_def fulfillRandomWords_def
      state_after_def REQUEST_CONFIRMATIONS_def NUM_WORDS_def)

text \<open>
  C7, amended. With a request id that differs from the pending one,
  \<^verbatim>\<open>fulfillRandomWords\<close> does exactly what it does with the pending one: the contract
  keeps no pending request id and compares the id with nothing. The players and the
  state stay as they were when the call reverts, which it does without a random
  word, without a player, and when the payout fails.
\<close>

theorem fulfillRandomWords_other_requestId:
  "(requestId \<noteq> pendingRequestId \<longrightarrow>
      fulfillRandomWords e s requestId randomWords
        = fulfillRandomWords e s pendingRequestId randomWords)
   \<and> (isl (fulfillRandomWords e s requestId randomWords) \<longrightarrow>
      s_players (state_after s (fulfillRandomWords e s requestId randomWords)) = s_players s
      \<and> s_lotteryState (state_after s (fulfillRandomWords e s requestId randomWords))
          = s_lotteryState s)
   \<and> isl (fulfillRandomWords e s requestId [])
   \<and> (s_players s = []
       \<or> \<not> call_value e (s_players s ! (unat r mod length (s_players s))) (balance s) \<longrightarrow>
      isl (fulfillRandomWords e s requestId (r # rs)))"
proof (intro conjI impI)
  show "fulfillRandomWords e s requestId randomWords
        = fulfillRandomWords e s pendingRequestId randomWords"
    by (simp add: fulfillRandomWords_def)
next
  assume "isl (fulfillRandomWords e s requestId randomWords)"
  then obtain err where "fulfillRandomWords e s requestId randomWords = Inl err"
    by (cases "fulfillRandomWords e s requestId randomWords") simp_all
  then show "s_players (state_after s (fulfillRandomWords e s requestId randomWords)) = s_players s"
    and "s_lotteryState (state_after s (fulfillRandomWords e s requestId randomWords))
          = s_lotteryState s"
    by (simp_all add: state_after_def)
next
  show "isl (fulfillRandomWords e s requestId [])"
    by (simp add: fulfillRandomWords_def)
next
  assume "s_players s = []
       \<or> \<not> call_value e (s_players s ! (unat r mod length (s_players s))) (balance s)"
  then show "isl (fulfillRandomWords e s requestId (r # rs))"
    by (auto simp add: fulfillRandomWords_cases)
qed

text \<open>
  A pending draw with request id 1 and one player. With request id 2 the outcome is
  the one of request id 1; with a failing payout the player and the state stay.
\<close>

theorem fulfillRandomWords_other_requestId_witness:
  "(2 :: uint256) \<noteq> 1
   \<and> fulfillRandomWords (env_at 12 True) (lottery_with CALCULATING [0xA1] 100) 2 [7]
       = fulfillRandomWords (env_at 12 True) (lottery_with CALCULATING [0xA1] 100) 1 [7]
   \<and> \<not> call_value (env_at 12 False) 0xA1 100
   \<and> isl (fulfillRandomWords (env_at 12 False) (lottery_with CALCULATING [0xA1] 100) 2 [7])
   \<and> s_players (state_after (lottery_with CALCULATING [0xA1] 100)
        (fulfillRandomWords (env_at 12 False) (lottery_with CALCULATING [0xA1] 100) 2 [7]))
       = [0xA1]
   \<and> s_lotteryState (state_after (lottery_with CALCULATING [0xA1] 100)
        (fulfillRandomWords (env_at 12 False) (lottery_with CALCULATING [0xA1] 100) 2 [7]))
       = CALCULATING"
proof -
  have ne: "(2 :: uint256) \<noteq> 1" by simp
  have nc: "\<not> call_value (env_at 12 False) 0xA1 100"
    by (simp add: example_defs)
  then have nc': "\<not> call_value (env_at 12 False)
      (s_players (lottery_with CALCULATING [0xA1] 100)
         ! (unat (7 :: uint256) mod length (s_players (lottery_with CALCULATING [0xA1] 100))))
      (balance (lottery_with CALCULATING [0xA1] 100))"
    by (simp add: example_defs)
  have same: "fulfillRandomWords (env_at 12 True) (lottery_with CALCULATING [0xA1] 100) 2 [7]
       = fulfillRandomWords (env_at 12 True) (lottery_with CALCULATING [0xA1] 100) 1 [7]"
    using ne fulfillRandomWords_other_requestId
      [where e = "env_at 12 True" and s = "lottery_with CALCULATING [0xA1] 100"
         and requestId = 2 and pendingRequestId = 1 and randomWords = "[7]"]
    by blast
  have reverts: "isl (fulfillRandomWords (env_at 12 False) (lottery_with CALCULATING [0xA1] 100) 2 [7])"
    using nc' fulfillRandomWords_other_requestId
      [where e = "env_at 12 False" and s = "lottery_with CALCULATING [0xA1] 100"
         and requestId = 2 and r = 7 and rs = "[]"]
    by blast
  have "s_players (state_after (lottery_with CALCULATING [0xA1] 100)
          (fulfillRandomWords (env_at 12 False) (lottery_with CALCULATING [0xA1] 100) 2 [7]))
        = s_players (lottery_with CALCULATING [0xA1] 100)
      \<and> s_lotteryState (state_after (lottery_with CALCULATING [0xA1] 100)
          (fulfillRandomWords (env_at 12 False) (lottery_with CALCULATING [0xA1] 100) 2 [7]))
        = s_lotteryState (lottery_with CALCULATING [0xA1] 100)"
    using reverts fulfillRandomWords_other_requestId
      [where e = "env_at 12 False" and s = "lottery_with CALCULATING [0xA1] 100"
         and requestId = 2 and randomWords = "[7]"]
    by blast
  then have stay: "s_players (state_after (lottery_with CALCULATING [0xA1] 100)
          (fulfillRandomWords (env_at 12 False) (lottery_with CALCULATING [0xA1] 100) 2 [7]))
        = [0xA1]
      \<and> s_lotteryState (state_after (lottery_with CALCULATING [0xA1] 100)
          (fulfillRandomWords (env_at 12 False) (lottery_with CALCULATING [0xA1] 100) 2 [7]))
        = CALCULATING"
    by (simp add: example_defs)
  show ?thesis using ne same nc reverts stay by simp
qed

text \<open>
  C8. \<^verbatim>\<open>checkUpkeep\<close> leaves the contract as it found it, at every time and in every
  state, and emits no event.
\<close>

theorem checkUpkeep_side_effect_free:
  "state_after s (checkUpkeep e s checkData) = s
   \<and> events_of (checkUpkeep e s checkData) = []"
  by (simp add: checkUpkeep_def state_after_def events_of_def Let_def)

text \<open>
  C9. With at least one player the winner's index is below the number of players, the
  array access yields one of the players, and \<^verbatim>\<open>fulfillRandomWords\<close> raises no panic.
  With no player it fails with the panic for a modulo by zero.
\<close>

theorem winner_index_in_bounds:
  "(s_players s \<noteq> [] \<longrightarrow>
      unat r mod length (s_players s) < length (s_players s)
      \<and> s_players s ! (unat r mod length (s_players s)) \<in> set (s_players s)
      \<and> (\<forall>code. fulfillRandomWords e s requestId (r # rs) \<noteq> Inl (Panic code)))
   \<and> (s_players s = [] \<longrightarrow>
      fulfillRandomWords e s requestId (r # rs) = Inl (Panic 0x12))"
  by (simp add: fulfillRandomWords_cases split: prod.split)

text \<open>
  Four players and the random word 42: index 2. No player: panic \<^verbatim>\<open>0x12\<close>.
\<close>

theorem winner_index_in_bounds_witness:
  "s_players (lottery_with CALCULATING [0xA1, 0xA2, 0xA3, 0xA4] 400) \<noteq> []
   \<and> unat (42 :: uint256) mod length (s_players (lottery_with CALCULATING [0xA1, 0xA2, 0xA3, 0xA4] 400)) = 2
   \<and> fulfillRandomWords (env_at 25 True) (lottery_with CALCULATING [0xA1, 0xA2, 0xA3, 0xA4] 400) 1 [42]
       \<noteq> Inl (Panic 0x32)
   \<and> s_players (lottery_with CALCULATING [] 0) = []
   \<and> fulfillRandomWords (env_at 25 True) (lottery_with CALCULATING [] 0) 1 [42]
       = Inl (Panic 0x12)"
  using winner_index_in_bounds
      [where e = "env_at 25 True" and s = "lottery_with CALCULATING [0xA1, 0xA2, 0xA3, 0xA4] 400"
         and requestId = 1 and r = 42 and rs = "[]"]
    winner_index_in_bounds
      [where e = "env_at 25 True" and s = "lottery_with CALCULATING [] 0"
         and requestId = 1 and r = 42 and rs = "[]"]
  by (simp add: example_defs)

text \<open>
  C10. The result of \<^verbatim>\<open>fulfillRandomWords\<close> is the same for any two request ids, given
  the same contract, environment and random words.
\<close>

theorem fulfillRandomWords_ignores_requestId:
  "fulfillRandomWords e s requestId1 randomWords = fulfillRandomWords e s requestId2 randomWords
   \<and> state_after s (fulfillRandomWords e s requestId1 randomWords)
       = state_after s (fulfillRandomWords e s requestId2 randomWords)"
  by (simp add: fulfillRandomWords_def)

end
